theory Spec2Isabelle
  imports Main "HOL-Library.AList"
begin

section \<open>Python values\<close>

text \<open>
  The payloads and replies of \<^verbatim>\<open>fan.py\<close> are \<^verbatim>\<open>Dict[str, Any]\<close>: JSON objects.
  A value is \<^verbatim>\<open>None\<close>, a bool, an unbounded int, a str, a list or a dict with string
  keys. JSON numbers with a fractional part (Python floats) are not modelled. A dict is
  an association list in insertion order, as Python keeps it; a str is a list of code
  points below 256.
\<close>

datatype pyval =
    VNone
  | VBool bool
  | VInt int
  | VStr string
  | VList "pyval list"
  | VDict "(string \<times> pyval) list"

type_synonym pydict = "(string \<times> pyval) list"

text \<open>Truth value of an object, as \<^verbatim>\<open>bool(x)\<close>, \<^verbatim>\<open>not x\<close> and \<^verbatim>\<open>x or y\<close> test it.\<close>

fun truthy :: "pyval \<Rightarrow> bool" where
  "truthy VNone = False"
| "truthy (VBool b) = b"
| "truthy (VInt n) = (n \<noteq> 0)"
| "truthy (VStr s) = (s \<noteq> [])"
| "truthy (VList xs) = (xs \<noteq> [])"
| "truthy (VDict d) = (d \<noteq> [])"

text \<open>\<^verbatim>\<open>x or y\<close>: the first operand when it is true, the second otherwise.\<close>

definition py_or :: "pyval \<Rightarrow> pyval \<Rightarrow> pyval" where
  "py_or x y = (if truthy x then x else y)"

text \<open>\<^verbatim>\<open>d.get(k)\<close>: the value under the key, \<^verbatim>\<open>None\<close> when the key is missing.\<close>

definition dict_get :: "pydict \<Rightarrow> string \<Rightarrow> pyval" where
  "dict_get d k = (case map_of d k of None \<Rightarrow> VNone | Some v \<Rightarrow> v)"

text \<open>\<^verbatim>\<open>d[k] = v\<close>: overwrite in place, or append a new key.\<close>

definition dict_set :: "string \<Rightarrow> pyval \<Rightarrow> pydict \<Rightarrow> pydict" where
  "dict_set k v d = AList.update k v d"

definition dict_keys :: "pydict \<Rightarrow> string set" where
  "dict_keys d = fst ` set d"

subsection \<open>\<^verbatim>\<open>repr\<close> and \<^verbatim>\<open>str\<close>\<close>

text \<open>
  The f-string of \<^verbatim>\<open>_validate_response\<close> formats the payload and the reply with
  \<^verbatim>\<open>!r\<close> and the error code with \<^verbatim>\<open>str\<close>. These are the builtins of CPython on the
  values above: decimal integers, strings quoted and escaped as \<^verbatim>\<open>unicode_repr\<close>
  does, containers with \<^verbatim>\<open>, \<close> and \<^verbatim>\<open>: \<close>.
\<close>

definition digit_char :: "nat \<Rightarrow> char" where
  "digit_char n = ''0123456789abcdef'' ! n"

function show_nat :: "nat \<Rightarrow> string" where
  "show_nat n = (if n < 10 then [digit_char n] else show_nat (n div 10) @ [digit_char (n mod 10)])"
  by pat_completeness auto
termination
  by (relation "measure id") auto

declare show_nat.simps [simp del]

definition repr_int :: "int \<Rightarrow> string" where
  "repr_int i = (if i < 0 then CHR ''-'' # show_nat (nat (- i)) else show_nat (nat i))"

text \<open>
  The quote is the double quote exactly when the string holds a single quote and no
  double quote. The quote and the backslash are escaped with a backslash; tab, newline
  and carriage return by their letters; every other code point that is not printable as
  \<^verbatim>\<open>\xhh\<close>. Below 256 the printable code points are 32 to 126 and 161 to 255 but 173.
\<close>

definition squote :: char where "squote = CHR 0x27"
definition dquote :: char where "dquote = CHR 0x22"
definition backslash :: char where "backslash = CHR 0x5C"

definition repr_quote :: "string \<Rightarrow> char" where
  "repr_quote s = (if squote \<in> set s \<and> dquote \<notin> set s then dquote else squote)"

definition printable :: "char \<Rightarrow> bool" where
  "printable c = (let n = (of_char c :: nat) in (32 \<le> n \<and> n < 127) \<or> (161 \<le> n \<and> n \<noteq> 173))"

definition repr_char :: "char \<Rightarrow> char \<Rightarrow> string" where
  "repr_char q c =
     (if c = q \<or> c = backslash then [backslash, c]
      else if c = CHR 0x09 then [backslash, CHR ''t'']
      else if c = CHR 0x0A then [backslash, CHR ''n'']
      else if c = CHR 0x0D then [backslash, CHR ''r'']
      else if \<not> printable c then
        [backslash, CHR ''x'', digit_char (of_char c div 16), digit_char (of_char c mod 16)]
      else [c])"

definition repr_str :: "string \<Rightarrow> string" where
  "repr_str s = (let q = repr_quote s in q # concat (map (repr_char q) s) @ [q])"

fun join :: "string \<Rightarrow> string list \<Rightarrow> string" where
  "join sep [] = []"
| "join sep [x] = x"
| "join sep (x # y # ys) = x @ sep @ join sep (y # ys)"

fun py_repr :: "pyval \<Rightarrow> string" where
  "py_repr VNone = ''None''"
| "py_repr (VBool b) = (if b then ''True'' else ''False'')"
| "py_repr (VInt i) = repr_int i"
| "py_repr (VStr s) = repr_str s"
| "py_repr (VList xs) = ''['' @ join '', '' (map py_repr xs) @ '']''"
| "py_repr (VDict d) =
     ''{'' @ join '', '' (map (\<lambda>(k, v). repr_str k @ '': '' @ py_repr v) d) @ ''}''"

text \<open>\<^verbatim>\<open>str(x)\<close>: a string is itself, anything else is its \<^verbatim>\<open>repr\<close>.\<close>

fun py_str :: "pyval \<Rightarrow> string" where
  "py_str (VStr s) = s"
| "py_str v = py_repr v"

section \<open>Exceptions and log records\<close>

text \<open>
  Every \<^verbatim>\<open>raise\<close> is a value. \<^verbatim>\<open>ValueError\<close> is the builtin; the three
  \<^verbatim>\<open>WizLight...\<close> classes come from \<^verbatim>\<open>pywizlight.exceptions\<close>, each built from one
  message; \<open>OtherError\<close> stands for any other exception the transport may raise.
\<close>

datatype exn =
    ValueError string
  | WizLightProtocolError string
  | WizLightConnectionError string
  | WizLightTimeOutError string
  | OtherError string

datatype log_level = WARNING | ERROR

text \<open>A call of \<^verbatim>\<open>_LOGGER.warning\<close> or \<^verbatim>\<open>_LOGGER.error\<close>: level, format, \<^verbatim>\<open>self.ip\<close>, exception.\<close>

datatype log_record = LogRecord log_level string string exn

section \<open>Enumerations\<close>

datatype FanMode = NORMAL | BREEZE

fun FanMode_int :: "FanMode \<Rightarrow> int" where
  "FanMode_int NORMAL = 1"
| "FanMode_int BREEZE = 2"

datatype FanReverse = SUMMER | WINTER

fun FanReverse_int :: "FanReverse \<Rightarrow> int" where
  "FanReverse_int SUMMER = 0"
| "FanReverse_int WINTER = 1"

text \<open>
  \<^verbatim>\<open>FanMode(x)\<close>: the member whose value equals \<^verbatim>\<open>x\<close> (\<^verbatim>\<open>True == 1\<close> in Python), and
  \<^verbatim>\<open>ValueError\<close> when there is none.
\<close>

definition not_a_FanMode :: "pyval \<Rightarrow> exn" where
  "not_a_FanMode v = ValueError (py_repr v @ '' is not a valid FanMode'')"

fun FanMode_of :: "pyval \<Rightarrow> exn + FanMode" where
  "FanMode_of (VInt i) =
     (if i = 1 then Inr NORMAL else if i = 2 then Inr BREEZE else Inl (not_a_FanMode (VInt i)))"
| "FanMode_of (VBool b) = (if b then Inr NORMAL else Inl (not_a_FanMode (VBool b)))"
| "FanMode_of v = Inl (not_a_FanMode v)"

section \<open>The pilot builder\<close>

text \<open>
  A builder object holds a reference to its \<^verbatim>\<open>_payload\<close> dict. Dict objects live in a
  store, a list indexed by address; a new object takes the next address. Mutation of a
  dict is an update of the store at its address, so two references to one object see
  each other's writes and a copy does not.
\<close>

type_synonym addr = nat
type_synonym store = "pydict list"

record FanPilotBuilder =
  payload_ref :: addr

definition new_dict :: "pydict \<Rightarrow> store \<Rightarrow> addr \<times> store" where
  "new_dict d h = (length h, h @ [d])"

definition store_setitem :: "addr \<Rightarrow> string \<Rightarrow> pyval \<Rightarrow> store \<Rightarrow> store" where
  "store_setitem a k v h = h[a := dict_set k v (h ! a)]"

definition speed :: "int \<Rightarrow> FanPilotBuilder \<Rightarrow> store \<Rightarrow> (exn + FanPilotBuilder) \<times> store" where
  "speed v self h =
     (if \<not> (1 \<le> v \<and> v < 7) then
        (Inl (ValueError ''fanSpeed must be between 1 and 6 inclusive''), h)
      else (Inr self, store_setitem (payload_ref self) ''fanSpeed'' (VInt v) h))"

definition mode :: "FanMode \<Rightarrow> FanPilotBuilder \<Rightarrow> store \<Rightarrow> FanPilotBuilder \<times> store" where
  "mode v self h = (self, store_setitem (payload_ref self) ''fanMode'' (VInt (FanMode_int v)) h)"

definition reverse :: "FanReverse \<Rightarrow> FanPilotBuilder \<Rightarrow> store \<Rightarrow> FanPilotBuilder \<times> store" where
  "reverse v self h =
     (self, store_setitem (payload_ref self) ''fanRevrs'' (VInt (FanReverse_int v)) h)"

text \<open>\<^verbatim>\<open>__init__\<close>: a fresh empty dict, then the setters of the arguments given, in order.\<close>

definition FanPilotBuilder_init ::
  "int option \<Rightarrow> FanMode option \<Rightarrow> FanReverse option \<Rightarrow> store \<Rightarrow> (exn + FanPilotBuilder) \<times> store"
where
  "FanPilotBuilder_init spd md dir h =
     (let (a, h0) = new_dict [] h; self = \<lparr>payload_ref = a\<rparr> in
      (case (case spd of None \<Rightarrow> (Inr self, h0) | Some v \<Rightarrow> speed v self h0) of
         (Inl e, h1) \<Rightarrow> (Inl e, h1)
       | (Inr _, h1) \<Rightarrow>
           (let h2 = (case md of None \<Rightarrow> h1 | Some m \<Rightarrow> snd (mode m self h1));
                h3 = (case dir of None \<Rightarrow> h2 | Some r \<Rightarrow> snd (reverse r self h2))
            in (Inr self, h3))))"

text \<open>The \<^verbatim>\<open>payload\<close> property: \<^verbatim>\<open>dict(self._payload)\<close>, a new dict object with the same items.\<close>

definition payload :: "FanPilotBuilder \<Rightarrow> store \<Rightarrow> addr \<times> store" where
  "payload self h = new_dict (h ! payload_ref self) h"

definition FanPilotBuilder_bool :: "FanPilotBuilder \<Rightarrow> store \<Rightarrow> bool" where
  "FanPilotBuilder_bool self h = (h ! payload_ref self \<noteq> [])"

section \<open>The device\<close>

text \<open>
  The state a call of a \<^verbatim>\<open>WizFan\<close> method runs in: the collaborator behind
  \<^verbatim>\<open>_do_command\<close> (of \<^verbatim>\<open>WizDevice\<close>, not part of this module) with its own state,
  \<^verbatim>\<open>self.ip\<close>, the calls of \<^verbatim>\<open>_do_command\<close> made so far, the log records emitted so
  far, and the store of dict objects. The collaborator is a parameter: given its state,
  a method name and the parameters it returns a reply or raises, and moves to a new state.
\<close>

record 'd world =
  device :: 'd
  ip :: string
  sent :: "(string \<times> pydict) list"
  logged :: "log_record list"
  objs :: store

type_synonym 'd transport = "'d \<Rightarrow> string \<Rightarrow> pydict \<Rightarrow> (exn + pydict) \<times> 'd"

definition do_command ::
  "'d transport \<Rightarrow> string \<Rightarrow> pydict \<Rightarrow> 'd world \<Rightarrow> (exn + pydict) \<times> 'd world" where
  "do_command tr method params w =
     (case tr (device w) method params of
        (r, d') \<Rightarrow> (r, w\<lparr>device := d', sent := sent w @ [(method, params)]\<rparr>))"

definition FAN_STATE_OFF :: int where "FAN_STATE_OFF = 0"
definition FAN_STATE_ON :: int where "FAN_STATE_ON = 1"

text \<open>\<^verbatim>\<open>except (WizLightConnectionError, WizLightTimeOutError)\<close>.\<close>

fun transport_failure :: "exn \<Rightarrow> bool" where
  "transport_failure (WizLightConnectionError _) = True"
| "transport_failure (WizLightTimeOutError _) = True"
| "transport_failure _ = False"

definition log_call :: "log_level \<Rightarrow> string \<Rightarrow> exn \<Rightarrow> 'd world \<Rightarrow> 'd world" where
  "log_call lvl fmt exc w = w\<lparr>logged := logged w @ [LogRecord lvl fmt (ip w) exc]\<rparr>"

text \<open>The local \<^verbatim>\<open>error_code\<close> of \<^verbatim>\<open>_validate_response\<close>, and the message it raises with.\<close>

definition error_code :: "pydict \<Rightarrow> pyval" where
  "error_code response = py_or (dict_get response ''error'') (dict_get response ''result'')"

definition protocol_message :: "pydict \<Rightarrow> pydict \<Rightarrow> string" where
  "protocol_message sent_params response =
     ''Unexpected response to setPilot '' @ py_repr (VDict sent_params) @ '': ''
       @ py_repr (VDict response) @ '' (error='' @ py_str (error_code response) @ '')''"

definition validate_response :: "pydict \<Rightarrow> pydict \<Rightarrow> exn + unit" where
  "validate_response response sent_params =
     (if dict_get response ''result'' = VStr ''ok'' then Inr ()
      else Inl (WizLightProtocolError (protocol_message sent_params response)))"

definition send_pilot :: "'d transport \<Rightarrow> pydict \<Rightarrow> 'd world \<Rightarrow> (exn + unit) \<times> 'd world" where
  "send_pilot tr params w =
     (if params = [] then (Inr (), w)
      else case do_command tr ''setPilot'' params w of
        (Inl exc, w1) \<Rightarrow>
          (if transport_failure exc
           then (Inl exc, log_call ERROR ''%s: UDP send failed: %s'' exc w1)
           else (Inl exc, w1))
      | (Inr response, w1) \<Rightarrow> (validate_response response params, w1))"

definition send_state :: "'d transport \<Rightarrow> int \<Rightarrow> 'd world \<Rightarrow> (exn + unit) \<times> 'd world" where
  "send_state tr state w =
     (if state \<noteq> FAN_STATE_OFF \<and> state \<noteq> FAN_STATE_ON then
        (Inl (ValueError ''fanState must be 0 (off) or 1 (on)''), w)
      else send_pilot tr [(''fanState'', VInt state)] w)"

text \<open>
  \<^verbatim>\<open>await self._send_pilot(FanPilotBuilder(...).payload)\<close>: build, copy the payload,
  send the copy. An exception of the constructor ends the call before anything is sent.
\<close>

definition send_built ::
  "'d transport \<Rightarrow> int option \<Rightarrow> FanMode option \<Rightarrow> FanReverse option \<Rightarrow> 'd world
     \<Rightarrow> (exn + unit) \<times> 'd world" where
  "send_built tr spd md dir w =
     (case FanPilotBuilder_init spd md dir (objs w) of
        (Inl e, h) \<Rightarrow> (Inl e, w\<lparr>objs := h\<rparr>)
      | (Inr builder, h) \<Rightarrow>
          (case payload builder h of (p, h') \<Rightarrow> send_pilot tr (h' ! p) (w\<lparr>objs := h'\<rparr>)))"

definition turn_on ::
  "'d transport \<Rightarrow> int option \<Rightarrow> FanMode option \<Rightarrow> FanReverse option \<Rightarrow> 'd world
     \<Rightarrow> (exn + unit) \<times> 'd world" where
  "turn_on tr spd md dir w =
     (case send_state tr FAN_STATE_ON w of
        (Inl e, w1) \<Rightarrow> (Inl e, w1)
      | (Inr _, w1) \<Rightarrow>
          if spd \<noteq> None \<or> md \<noteq> None \<or> dir \<noteq> None then send_built tr spd md dir w1
          else (Inr (), w1))"

definition turn_off :: "'d transport \<Rightarrow> 'd world \<Rightarrow> (exn + unit) \<times> 'd world" where
  "turn_off tr w = send_state tr FAN_STATE_OFF w"

definition set_speed :: "'d transport \<Rightarrow> int \<Rightarrow> 'd world \<Rightarrow> (exn + unit) \<times> 'd world" where
  "set_speed tr spd w = send_built tr (Some spd) None None w"

definition set_mode :: "'d transport \<Rightarrow> FanMode \<Rightarrow> 'd world \<Rightarrow> (exn + unit) \<times> 'd world" where
  "set_mode tr md w = send_built tr None (Some md) None w"

definition set_reverse :: "'d transport \<Rightarrow> FanReverse \<Rightarrow> 'd world \<Rightarrow> (exn + unit) \<times> 'd world" where
  "set_reverse tr dir w = send_built tr None None (Some dir) w"

definition get_status :: "'d transport \<Rightarrow> 'd world \<Rightarrow> (exn + pydict) \<times> 'd world" where
  "get_status tr w =
     (case do_command tr ''getPilot'' [] w of
        (Inl exc, w1) \<Rightarrow>
          (if transport_failure exc
           then (Inl exc, log_call WARNING ''%s: could not fetch status: %s'' exc w1)
           else (Inl exc, w1))
      | (Inr reply, w1) \<Rightarrow> (Inr reply, w1))"

text \<open>\<^verbatim>\<open>FanMode(status.get("fanMode", FanMode.NORMAL))\<close>.\<close>

definition get_mode :: "'d transport \<Rightarrow> 'd world \<Rightarrow> (exn + FanMode) \<times> 'd world" where
  "get_mode tr w =
     (case get_status tr w of
        (Inl e, w1) \<Rightarrow> (Inl e, w1)
      | (Inr status, w1) \<Rightarrow>
          ((case map_of status ''fanMode'' of None \<Rightarrow> Inr NORMAL | Some v \<Rightarrow> FanMode_of v), w1))"

section \<open>Observations and sample devices\<close>

text \<open>The calls of \<^verbatim>\<open>_do_command\<close> made between two states.\<close>

definition new_sent :: "'d world \<Rightarrow> 'd world \<Rightarrow> (string \<times> pydict) list" where
  "new_sent w w' = drop (length (sent w)) (sent w')"

text \<open>
  A sequence of fluent calls on one builder. A call that raises leaves the builder as it
  was, and the caller may go on with the next call.
\<close>

datatype builder_call = CallSpeed int | CallMode FanMode | CallReverse FanReverse

fun call :: "builder_call \<Rightarrow> FanPilotBuilder \<Rightarrow> store \<Rightarrow> store" where
  "call (CallSpeed v) self h = snd (speed v self h)"
| "call (CallMode m) self h = snd (mode m self h)"
| "call (CallReverse r) self h = snd (reverse r self h)"

definition calls :: "builder_call list \<Rightarrow> FanPilotBuilder \<Rightarrow> store \<Rightarrow> store" where
  "calls cs self h = fold (\<lambda>c. call c self) cs h"

text \<open>The keys the builder can write.\<close>

definition builder_keys :: "string set" where
  "builder_keys = {''fanSpeed'', ''fanMode'', ''fanRevrs''}"

text \<open>
  A text that does not begin with a decimal digit. What follows an integer in a \<^verbatim>\<open>repr\<close>
  is such a text (a comma, a bracket, a colon or a space), so the integer can be read back.
\<close>

definition no_digit_ahead :: "string \<Rightarrow> bool" where
  "no_digit_ahead t = (case t of [] \<Rightarrow> True | c # _ \<Rightarrow> c \<notin> set ''0123456789'')"

text \<open>
  A device at rest, and two collaborators: one that answers every command with the same
  reply, one that raises the same exception on every command.
\<close>

definition demo_world :: "nat world" where
  "demo_world = \<lparr>device = 0, ip = ''192.168.1.20'', sent = [], logged = [], objs = []\<rparr>"

definition reply_with :: "pydict \<Rightarrow> nat transport" where
  "reply_with r d m p = (Inr r, Suc d)"

definition raise_with :: "exn \<Rightarrow> nat transport" where
  "raise_with e d m p = (Inl e, Suc d)"

section \<open>Properties\<close>

subsection \<open>The send path and the builder, step by step\<close>

lemma sent_send_pilot:
  "sent (snd (send_pilot tr p w)) = sent w @ (if p = [] then [] else [(''setPilot'', p)])"
  by (simp add: send_pilot_def do_command_def log_call_def split: prod.splits sum.splits)

lemma send_state_on: "send_state tr 1 w = send_pilot tr [(''fanState'', VInt 1)] w"
  by (simp add: send_state_def FAN_STATE_OFF_def FAN_STATE_ON_def)

lemma send_state_off: "send_state tr 0 w = send_pilot tr [(''fanState'', VInt 0)] w"
  by (simp add: send_state_def FAN_STATE_OFF_def FAN_STATE_ON_def)

lemma turn_on_plain: "turn_on tr None None None w = send_pilot tr [(''fanState'', VInt 1)] w"
  by (cases "send_pilot tr [(''fanState'', VInt 1)] w")
     (auto simp: turn_on_def FAN_STATE_ON_def send_state_on split: sum.splits)

lemma turn_off_plain: "turn_off tr w = send_pilot tr [(''fanState'', VInt 0)] w"
  by (simp add: turn_off_def FAN_STATE_OFF_def send_state_off)

lemma send_pilot_raise:
  assumes "p \<noteq> []" "tr (device w) ''setPilot'' p = (Inl e, d')"
  shows "send_pilot tr p w =
    (Inl e, (if transport_failure e then log_call ERROR ''%s: UDP send failed: %s'' e else id)
              (w\<lparr>device := d', sent := sent w @ [(''setPilot'', p)]\<rparr>))"
  using assms by (simp add: send_pilot_def do_command_def)

lemma send_pilot_reply:
  assumes "p \<noteq> []" "tr (device w) ''setPilot'' p = (Inr r, d')"
  shows "send_pilot tr p w =
    (validate_response r p, w\<lparr>device := d', sent := sent w @ [(''setPilot'', p)]\<rparr>)"
  using assms by (simp add: send_pilot_def do_command_def)

lemma store_setitem_fresh:
  "store_setitem (length h) k v (h @ [d]) = h @ [dict_set k v d]"
  by (simp add: store_setitem_def)

lemma init_speed_ok:
  "1 \<le> v \<Longrightarrow> v \<le> 6 \<Longrightarrow>
   FanPilotBuilder_init (Some v) None None h =
     (Inr \<lparr>payload_ref = length h\<rparr>, h @ [[(''fanSpeed'', VInt v)]])"
  by (simp add: FanPilotBuilder_init_def new_dict_def speed_def store_setitem_fresh dict_set_def)

lemma init_speed_bad:
  "\<not> (1 \<le> v \<and> v \<le> 6) \<Longrightarrow>
   FanPilotBuilder_init (Some v) None None h =
     (Inl (ValueError ''fanSpeed must be between 1 and 6 inclusive''), h @ [[]])"
  by (auto simp add: FanPilotBuilder_init_def new_dict_def speed_def)

lemma init_mode:
  "FanPilotBuilder_init None (Some m) None h =
     (Inr \<lparr>payload_ref = length h\<rparr>, h @ [[(''fanMode'', VInt (FanMode_int m))]])"
  by (simp add: FanPilotBuilder_init_def new_dict_def mode_def store_setitem_fresh dict_set_def)

lemma init_reverse:
  "FanPilotBuilder_init None None (Some r) h =
     (Inr \<lparr>payload_ref = length h\<rparr>, h @ [[(''fanRevrs'', VInt (FanReverse_int r))]])"
  by (simp add: FanPilotBuilder_init_def new_dict_def reverse_def store_setitem_fresh dict_set_def)

lemma payload_last:
  "payload \<lparr>payload_ref = length h\<rparr> (h @ [d]) = (Suc (length h), h @ [d, d])"
  by (simp add: payload_def new_dict_def)

lemma send_built_speed_ok:
  "1 \<le> v \<Longrightarrow> v \<le> 6 \<Longrightarrow>
   send_built tr (Some v) None None w =
     send_pilot tr [(''fanSpeed'', VInt v)]
       (w\<lparr>objs := objs w @ [[(''fanSpeed'', VInt v)], [(''fanSpeed'', VInt v)]]\<rparr>)"
  by (simp add: send_built_def init_speed_ok payload_last nth_append)

lemma send_built_speed_bad:
  "\<not> (1 \<le> v \<and> v \<le> 6) \<Longrightarrow>
   send_built tr (Some v) None None w =
     (Inl (ValueError ''fanSpeed must be between 1 and 6 inclusive''), w\<lparr>objs := objs w @ [[]]\<rparr>)"
  by (simp add: send_built_def init_speed_bad)

lemma send_built_mode:
  "send_built tr None (Some m) None w =
     send_pilot tr [(''fanMode'', VInt (FanMode_int m))]
       (w\<lparr>objs := objs w @ [[(''fanMode'', VInt (FanMode_int m))], [(''fanMode'', VInt (FanMode_int m))]]\<rparr>)"
  by (simp add: send_built_def init_mode payload_last nth_append)

lemma send_built_reverse:
  "send_built tr None None (Some r) w =
     send_pilot tr [(''fanRevrs'', VInt (FanReverse_int r))]
       (w\<lparr>objs := objs w @ [[(''fanRevrs'', VInt (FanReverse_int r))], [(''fanRevrs'', VInt (FanReverse_int r))]]\<rparr>)"
  by (simp add: send_built_def init_reverse payload_last nth_append)

subsection \<open>Dispatcher and builder\<close>

text \<open>
  C6. \<^verbatim>\<open>_send_pilot\<close> with an empty payload returns without raising and leaves the whole
  state as it was: nothing is sent, no reply is awaited, nothing is logged.
\<close>

theorem send_pilot_empty_noop: "send_pilot tr [] w = (Inr (), w)"
  by (simp add: send_pilot_def)

text \<open>
  C2. \<^verbatim>\<open>turn_on()\<close> with no optional parameter sends exactly one command, with payload
  \<^verbatim>\<open>{"fanState": 1}\<close>; \<^verbatim>\<open>turn_off()\<close> sends exactly one command, with payload
  \<^verbatim>\<open>{"fanState": 0}\<close>, and every payload it sends has \<^verbatim>\<open>fanState\<close> as its only key.
  This holds whatever the collaborator answers.
\<close>

theorem turn_on_off_single_command:
  "sent (snd (turn_on tr None None None w)) = sent w @ [(''setPilot'', [(''fanState'', VInt 1)])]
   \<and> sent (snd (turn_off tr w)) = sent w @ [(''setPilot'', [(''fanState'', VInt 0)])]
   \<and> (\<forall>(m, p) \<in> set (new_sent w (snd (turn_off tr w))). dict_keys p = {''fanState''})"
  by (simp add: turn_on_plain turn_off_plain sent_send_pilot new_sent_def dict_keys_def)

text \<open>
  C1. \<^verbatim>\<open>turn_on(speed=3)\<close>: when the reply to the first command is accepted, exactly two
  commands are sent, \<^verbatim>\<open>{"fanState": 1}\<close> and then \<^verbatim>\<open>{"fanSpeed": 3}\<close>. When the
  first command fails, because the collaborator raises or because its reply is not
  accepted, that failure is the result of the call and the first command is the only one sent.
\<close>

theorem turn_on_speed_3_two_commands:
  "(\<forall>r d. tr (device w) ''setPilot'' [(''fanState'', VInt 1)] = (Inr r, d)
          \<and> dict_get r ''result'' = VStr ''ok'' \<longrightarrow>
      sent (snd (turn_on tr (Some 3) None None w)) =
        sent w @ [(''setPilot'', [(''fanState'', VInt 1)]), (''setPilot'', [(''fanSpeed'', VInt 3)])])
   \<and> (\<forall>e d. tr (device w) ''setPilot'' [(''fanState'', VInt 1)] = (Inl e, d) \<longrightarrow>
      fst (turn_on tr (Some 3) None None w) = Inl e
      \<and> sent (snd (turn_on tr (Some 3) None None w)) = sent w @ [(''setPilot'', [(''fanState'', VInt 1)])])
   \<and> (\<forall>r d. tr (device w) ''setPilot'' [(''fanState'', VInt 1)] = (Inr r, d)
          \<and> dict_get r ''result'' \<noteq> VStr ''ok'' \<longrightarrow>
      fst (turn_on tr (Some 3) None None w) =
        Inl (WizLightProtocolError (protocol_message [(''fanState'', VInt 1)] r))
      \<and> sent (snd (turn_on tr (Some 3) None None w)) = sent w @ [(''setPilot'', [(''fanState'', VInt 1)])])"
proof (intro conjI allI impI)
  fix r d
  assume a: "tr (device w) ''setPilot'' [(''fanState'', VInt 1)] = (Inr r, d) \<and> dict_get r ''result'' = VStr ''ok''"
  then have "send_state tr FAN_STATE_ON w =
      (Inr (), w\<lparr>device := d, sent := sent w @ [(''setPilot'', [(''fanState'', VInt 1)])]\<rparr>)"
    by (simp add: FAN_STATE_ON_def send_state_on send_pilot_reply validate_response_def)
  then show "sent (snd (turn_on tr (Some 3) None None w)) =
        sent w @ [(''setPilot'', [(''fanState'', VInt 1)]), (''setPilot'', [(''fanSpeed'', VInt 3)])]"
    by (simp add: turn_on_def send_built_speed_ok sent_send_pilot)
next
  fix e d
  assume a: "tr (device w) ''setPilot'' [(''fanState'', VInt 1)] = (Inl e, d)"
  then have s: "send_state tr FAN_STATE_ON w =
      (Inl e, (if transport_failure e then log_call ERROR ''%s: UDP send failed: %s'' e else id)
              (w\<lparr>device := d, sent := sent w @ [(''setPilot'', [(''fanState'', VInt 1)])]\<rparr>))"
    by (simp add: FAN_STATE_ON_def send_state_on send_pilot_raise)
  show "fst (turn_on tr (Some 3) None None w) = Inl e"
    by (simp add: turn_on_def s)
  show "sent (snd (turn_on tr (Some 3) None None w)) = sent w @ [(''setPilot'', [(''fanState'', VInt 1)])]"
    by (simp add: turn_on_def s log_call_def)
next
  fix r d
  assume a: "tr (device w) ''setPilot'' [(''fanState'', VInt 1)] = (Inr r, d) \<and> dict_get r ''result'' \<noteq> VStr ''ok''"
  then have s: "send_state tr FAN_STATE_ON w =
      (Inl (WizLightProtocolError (protocol_message [(''fanState'', VInt 1)] r)),
       w\<lparr>device := d, sent := sent w @ [(''setPilot'', [(''fanState'', VInt 1)])]\<rparr>)"
    by (simp add: FAN_STATE_ON_def send_state_on send_pilot_reply validate_response_def)
  show "fst (turn_on tr (Some 3) None None w) =
        Inl (WizLightProtocolError (protocol_message [(''fanState'', VInt 1)] r))"
    by (simp add: turn_on_def s)
  show "sent (snd (turn_on tr (Some 3) None None w)) = sent w @ [(''setPilot'', [(''fanState'', VInt 1)])]"
    by (simp add: turn_on_def s)
qed

text \<open>
  C4. For an integer from 1 to 6 the builder accepts the speed and its payload is the single
  item \<^verbatim>\<open>fanSpeed\<close> with that value, and \<^verbatim>\<open>set_speed\<close> sends exactly that payload. For
  any other integer the setter and \<^verbatim>\<open>set_speed\<close> raise \<^verbatim>\<open>ValueError\<close>, nothing is sent
  and the collaborator is not touched.
\<close>

theorem set_speed_range:
  "(1 \<le> v \<and> v \<le> 6 \<longrightarrow>
      (\<exists>b h'. FanPilotBuilder_init (Some v) None None h = (Inr b, h')
           \<and> h' ! payload_ref b = [(''fanSpeed'', VInt v)])
      \<and> sent (snd (set_speed tr v w)) = sent w @ [(''setPilot'', [(''fanSpeed'', VInt v)])])
   \<and> (\<not> (1 \<le> v \<and> v \<le> 6) \<longrightarrow>
      fst (speed v b0 h) = Inl (ValueError ''fanSpeed must be between 1 and 6 inclusive'')
      \<and> fst (set_speed tr v w) = Inl (ValueError ''fanSpeed must be between 1 and 6 inclusive'')
      \<and> sent (snd (set_speed tr v w)) = sent w
      \<and> device (snd (set_speed tr v w)) = device w)"
  by (auto simp: set_speed_def send_built_speed_ok send_built_speed_bad init_speed_ok
      sent_send_pilot speed_def)

text \<open>
  C5. A reply with neither an \<^verbatim>\<open>error\<close> nor a \<^verbatim>\<open>result\<close> key is rejected with
  \<^verbatim>\<open>WizLightProtocolError\<close> (no other exception), and the error code extracted is
  \<^verbatim>\<open>None\<close>.
\<close>

theorem reply_without_error_and_result:
  assumes "''error'' \<notin> dict_keys r" and "''result'' \<notin> dict_keys r"
  shows "validate_response r p = Inl (WizLightProtocolError (protocol_message p r))
         \<and> error_code r = VNone \<and> py_str (error_code r) = ''None''"
proof -
  from assms have "map_of r ''error'' = None" "map_of r ''result'' = None"
    by (simp_all add: dict_keys_def map_of_eq_None_iff)
  then have "dict_get r ''error'' = VNone" "dict_get r ''result'' = VNone"
    by (simp_all add: dict_get_def)
  then show ?thesis
    by (simp add: validate_response_def error_code_def py_or_def)
qed

text \<open>
  C7. When the collaborator raises a connection or a time-out error, \<^verbatim>\<open>_send_pilot\<close> and
  \<^verbatim>\<open>get_status\<close> raise that same exception; the command was tried once, and one log
  record (error level for the apply-command, warning level for the status query) was added,
  holding the address and the exception. Nothing else of the state differs from what the
  collaborator left.
\<close>

theorem transport_failure_propagates:
  assumes "transport_failure e"
  shows "(p \<noteq> [] \<and> tr (device w) ''setPilot'' p = (Inl e, d) \<longrightarrow>
      send_pilot tr p w =
        (Inl e, w\<lparr>device := d, sent := sent w @ [(''setPilot'', p)],
                  logged := logged w @ [LogRecord ERROR ''%s: UDP send failed: %s'' (ip w) e]\<rparr>))
   \<and> (tr (device w) ''getPilot'' [] = (Inl e, d) \<longrightarrow>
      get_status tr w =
        (Inl e, w\<lparr>device := d, sent := sent w @ [(''getPilot'', [])],
                  logged := logged w @ [LogRecord WARNING ''%s: could not fetch status: %s'' (ip w) e]\<rparr>))"
  using assms by (auto simp: send_pilot_raise log_call_def get_status_def do_command_def)

lemma dict_keys_set: "dict_keys (dict_set k v d) = insert k (dict_keys d)"
  by (simp add: dict_keys_def dict_set_def dom_update)

lemma length_store_setitem: "length (store_setitem a k v h) = length h"
  by (simp add: store_setitem_def)

lemma nth_store_setitem:
  "a < length h \<Longrightarrow> store_setitem a k v h ! a = dict_set k v (h ! a)"
  by (simp add: store_setitem_def)

lemma length_call: "length (call c b h) = length h"
  by (cases c) (simp_all add: speed_def mode_def reverse_def length_store_setitem)

lemma keys_call:
  assumes "payload_ref b < length h" and "dict_keys (h ! payload_ref b) \<subseteq> builder_keys"
  shows "dict_keys (call c b h ! payload_ref b) \<subseteq> builder_keys"
  using assms
  by (cases c) (auto simp: speed_def mode_def reverse_def nth_store_setitem dict_keys_set builder_keys_def)

lemma keys_calls:
  assumes "payload_ref b < length h" and "dict_keys (h ! payload_ref b) \<subseteq> builder_keys"
  shows "dict_keys (calls cs b h ! payload_ref b) \<subseteq> builder_keys"
  using assms unfolding calls_def
proof (induction cs arbitrary: h)
  case Nil
  then show ?case by simp
next
  case (Cons c cs)
  have "payload_ref b < length (call c b h)"
    using Cons.prems(1) by (simp add: length_call)
  moreover have "dict_keys (call c b h ! payload_ref b) \<subseteq> builder_keys"
    using Cons.prems by (rule keys_call)
  ultimately show ?case
    using Cons.IH by simp
qed

lemma init_as_calls:
  assumes "FanPilotBuilder_init spd md dir h = (Inr b, h')"
  shows "payload_ref b = length h \<and> length h' = Suc (length h)
     \<and> dict_keys (h' ! payload_ref b) \<subseteq> builder_keys"
proof -
  define self where "self = \<lparr>payload_ref = length h\<rparr>"
  define cs where "cs = (case spd of None \<Rightarrow> [] | Some v \<Rightarrow> [CallSpeed v])
     @ (case md of None \<Rightarrow> [] | Some m \<Rightarrow> [CallMode m])
     @ (case dir of None \<Rightarrow> [] | Some r \<Rightarrow> [CallReverse r])"
  have "b = self \<and> h' = calls cs self (h @ [[]])"
    using assms
    by (auto simp: FanPilotBuilder_init_def new_dict_def Let_def self_def cs_def calls_def speed_def
          split: option.splits if_splits)
  moreover have "dict_keys (calls cs self (h @ [[]]) ! payload_ref self) \<subseteq> builder_keys"
    by (rule keys_calls) (simp_all add: self_def dict_keys_def)
  moreover have "length (calls cs self (h @ [[]])) = Suc (length h)"
    unfolding calls_def by (induction cs arbitrary: h rule: rev_induct) (simp_all add: length_call)
  ultimately show ?thesis
    by (simp add: self_def)
qed

text \<open>
  C10. Whatever the constructor arguments and whatever fluent calls follow, the keys of the
  builder's payload are among \<^verbatim>\<open>fanSpeed\<close>, \<^verbatim>\<open>fanMode\<close>, \<^verbatim>\<open>fanRevrs\<close>, and
  \<^verbatim>\<open>fanState\<close> is not one of them; no payload sent by \<^verbatim>\<open>set_speed\<close>, \<^verbatim>\<open>set_mode\<close>
  or \<^verbatim>\<open>set_reverse\<close> holds the key \<^verbatim>\<open>fanState\<close>.
\<close>

theorem builder_never_holds_power_key:
  "(FanPilotBuilder_init spd md dir h = (Inr b, h') \<longrightarrow>
      dict_keys (calls cs b h' ! payload_ref b) \<subseteq> {''fanSpeed'', ''fanMode'', ''fanRevrs''}
      \<and> ''fanState'' \<notin> dict_keys (calls cs b h' ! payload_ref b))
   \<and> (\<forall>(m, p) \<in> set (new_sent w (snd (set_speed tr v w))). ''fanState'' \<notin> dict_keys p)
   \<and> (\<forall>(m, p) \<in> set (new_sent w (snd (set_mode tr md' w))). ''fanState'' \<notin> dict_keys p)
   \<and> (\<forall>(m, p) \<in> set (new_sent w (snd (set_reverse tr dir' w))). ''fanState'' \<notin> dict_keys p)"
proof (intro conjI impI)
  assume i: "FanPilotBuilder_init spd md dir h = (Inr b, h')"
  have "dict_keys (calls cs b h' ! payload_ref b) \<subseteq> builder_keys"
    using init_as_calls [OF i] by (intro keys_calls) auto
  then show "dict_keys (calls cs b h' ! payload_ref b) \<subseteq> {''fanSpeed'', ''fanMode'', ''fanRevrs''}"
    by (simp add: builder_keys_def)
  then show "''fanState'' \<notin> dict_keys (calls cs b h' ! payload_ref b)"
    by auto
next
  show "\<forall>(m, p) \<in> set (new_sent w (snd (set_speed tr v w))). ''fanState'' \<notin> dict_keys p"
    by (cases "1 \<le> v \<and> v \<le> 6")
       (simp_all add: set_speed_def send_built_speed_ok send_built_speed_bad sent_send_pilot
          new_sent_def dict_keys_def)
next
  show "\<forall>(m, p) \<in> set (new_sent w (snd (set_mode tr md' w))). ''fanState'' \<notin> dict_keys p"
    by (simp add: set_mode_def send_built_mode sent_send_pilot new_sent_def dict_keys_def)
next
  show "\<forall>(m, p) \<in> set (new_sent w (snd (set_reverse tr dir' w))). ''fanState'' \<notin> dict_keys p"
    by (simp add: set_reverse_def send_built_reverse sent_send_pilot new_sent_def dict_keys_def)
qed

text \<open>
  C8. The \<^verbatim>\<open>payload\<close> property returns a new dict object with the items of the builder's
  own dict. Whatever is written to the returned object, the builder's dict keeps its items,
  and a later \<^verbatim>\<open>payload\<close> returns those items again.
\<close>

theorem payload_is_a_copy:
  assumes "payload_ref b < length h" and "payload b h = (a, h1)"
  shows "a \<noteq> payload_ref b
     \<and> h1 ! a = h ! payload_ref b
     \<and> (h1[a := d']) ! payload_ref b = h ! payload_ref b
     \<and> (\<forall>a' h2. payload b (h1[a := d']) = (a', h2) \<longrightarrow> h2 ! a' = h ! payload_ref b)"
  using assms by (auto simp: payload_def new_dict_def nth_append)

text \<open>
  C9, as stated, fails: for the mode 3 in the reply, \<^verbatim>\<open>get_mode\<close> raises the
  \<^verbatim>\<open>ValueError\<close> of the enumeration, which is not a \<^verbatim>\<open>WizLightProtocolError\<close>.
\<close>

theorem get_mode_protocol_error_counterexample:
  "(3::int) \<notin> {1, 2}
   \<and> fst (get_mode (reply_with [(''fanMode'', VInt 3)]) demo_world)
       = Inl (ValueError ''3 is not a valid FanMode'')
   \<and> (case fst (get_mode (reply_with [(''fanMode'', VInt 3)]) demo_world) of
         Inl (WizLightProtocolError _) \<Rightarrow> False | _ \<Rightarrow> True)"
  by (simp add: get_mode_def get_status_def do_command_def reply_with_def demo_world_def
        not_a_FanMode_def repr_int_def show_nat.simps digit_char_def)

text \<open>
  C9, amended. For every integer outside 1 and 2 in the \<^verbatim>\<open>fanMode\<close> field of the status
  reply, \<^verbatim>\<open>get_mode\<close> does not return the value: it raises the \<^verbatim>\<open>ValueError\<close> of the
  enumeration, naming the integer.
\<close>

theorem get_mode_out_of_domain_value_error:
  assumes "tr (device w) ''getPilot'' [] = (Inr st, d)"
      and "map_of st ''fanMode'' = Some (VInt i)" and "i \<noteq> 1" and "i \<noteq> 2"
  shows "fst (get_mode tr w) = Inl (ValueError (repr_int i @ '' is not a valid FanMode''))"
  using assms by (simp add: get_mode_def get_status_def do_command_def not_a_FanMode_def)

subsection \<open>Instances at concrete inputs\<close>

theorem turn_on_off_single_command_witness:
  "sent (snd (turn_on (reply_with [(''result'', VStr ''ok'')]) None None None demo_world))
     = [(''setPilot'', [(''fanState'', VInt 1)])]
   \<and> sent (snd (turn_off (reply_with [(''result'', VStr ''ok'')]) demo_world))
     = [(''setPilot'', [(''fanState'', VInt 0)])]
   \<and> dict_keys [(''fanState'', VInt 0)] = {''fanState''}"
  using turn_on_off_single_command [of "reply_with [(''result'', VStr ''ok'')]" demo_world]
  by (simp add: demo_world_def new_sent_def dict_keys_def)

theorem turn_on_speed_3_two_commands_witness:
  "sent (snd (turn_on (reply_with [(''result'', VStr ''ok'')]) (Some 3) None None demo_world))
     = [(''setPilot'', [(''fanState'', VInt 1)]), (''setPilot'', [(''fanSpeed'', VInt 3)])]
   \<and> fst (turn_on (raise_with (WizLightTimeOutError ''timed out'')) (Some 3) None None demo_world)
     = Inl (WizLightTimeOutError ''timed out'')
   \<and> sent (snd (turn_on (raise_with (WizLightTimeOutError ''timed out'')) (Some 3) None None demo_world))
     = [(''setPilot'', [(''fanState'', VInt 1)])]
   \<and> sent (snd (turn_on (reply_with [(''result'', VStr ''error'')]) (Some 3) None None demo_world))
     = [(''setPilot'', [(''fanState'', VInt 1)])]"
  using turn_on_speed_3_two_commands [of "reply_with [(''result'', VStr ''ok'')]" demo_world]
    turn_on_speed_3_two_commands [of "raise_with (WizLightTimeOutError ''timed out'')" demo_world]
    turn_on_speed_3_two_commands [of "reply_with [(''result'', VStr ''error'')]" demo_world]
  by (simp add: reply_with_def raise_with_def demo_world_def dict_get_def)

theorem set_speed_range_witness:
  "sent (snd (set_speed (reply_with [(''result'', VStr ''ok'')]) 6 demo_world))
     = [(''setPilot'', [(''fanSpeed'', VInt 6)])]
   \<and> fst (set_speed (reply_with [(''result'', VStr ''ok'')]) 7 demo_world)
     = Inl (ValueError ''fanSpeed must be between 1 and 6 inclusive'')
   \<and> sent (snd (set_speed (reply_with [(''result'', VStr ''ok'')]) 7 demo_world)) = []
   \<and> fst (set_speed (reply_with [(''result'', VStr ''ok'')]) 0 demo_world)
     = Inl (ValueError ''fanSpeed must be between 1 and 6 inclusive'')
   \<and> sent (snd (set_speed (reply_with [(''result'', VStr ''ok'')]) 0 demo_world)) = []"
  using set_speed_range [of 6 "[]" "reply_with [(''result'', VStr ''ok'')]" demo_world]
    set_speed_range [of 7 "[]" "reply_with [(''result'', VStr ''ok'')]" demo_world]
    set_speed_range [of 0 "[]" "reply_with [(''result'', VStr ''ok'')]" demo_world]
  by (simp add: demo_world_def)

theorem reply_without_error_and_result_witness:
  "validate_response [(''method'', VStr ''setPilot'')] [(''fanSpeed'', VInt 2)]
     = Inl (WizLightProtocolError
         (protocol_message [(''fanSpeed'', VInt 2)] [(''method'', VStr ''setPilot'')]))
   \<and> error_code [(''method'', VStr ''setPilot'')] = VNone"
  using reply_without_error_and_result [of "[(''method'', VStr ''setPilot'')]" "[(''fanSpeed'', VInt 2)]"]
  by (simp add: dict_keys_def)

theorem transport_failure_propagates_witness:
  "send_pilot (raise_with (WizLightConnectionError ''refused'')) [(''fanMode'', VInt 2)] demo_world
     = (Inl (WizLightConnectionError ''refused''),
        demo_world\<lparr>device := 1, sent := [(''setPilot'', [(''fanMode'', VInt 2)])],
          logged := [LogRecord ERROR ''%s: UDP send failed: %s'' ''192.168.1.20''
                       (WizLightConnectionError ''refused'')]\<rparr>)
   \<and> get_status (raise_with (WizLightTimeOutError ''timed out'')) demo_world
     = (Inl (WizLightTimeOutError ''timed out''),
        demo_world\<lparr>device := 1, sent := [(''getPilot'', [])],
          logged := [LogRecord WARNING ''%s: could not fetch status: %s'' ''192.168.1.20''
                       (WizLightTimeOutError ''timed out'')]\<rparr>)"
  using transport_failure_propagates [of "WizLightConnectionError ''refused''"
      "[(''fanMode'', VInt 2)]" "raise_with (WizLightConnectionError ''refused'')" demo_world 1]
    transport_failure_propagates [of "WizLightTimeOutError ''timed out''"
      "[]" "raise_with (WizLightTimeOutError ''timed out'')" demo_world 1]
  by (simp add: raise_with_def demo_world_def)

theorem payload_is_a_copy_witness:
  "payload \<lparr>payload_ref = 0\<rparr> [[(''fanSpeed'', VInt 3)]] = (1, [[(''fanSpeed'', VInt 3)], [(''fanSpeed'', VInt 3)]])
   \<and> ([[(''fanSpeed'', VInt 3)], [(''fanSpeed'', VInt 3)]][1 := [(''fanState'', VInt 0)]]) ! 0
       = [(''fanSpeed'', VInt 3)]
   \<and> snd (payload \<lparr>payload_ref = 0\<rparr>
             ([[(''fanSpeed'', VInt 3)], [(''fanSpeed'', VInt 3)]][1 := [(''fanState'', VInt 0)]])) ! 2
       = [(''fanSpeed'', VInt 3)]"
  using payload_is_a_copy [of "\<lparr>payload_ref = 0\<rparr>" "[[(''fanSpeed'', VInt 3)]]" 1
      "[[(''fanSpeed'', VInt 3)], [(''fanSpeed'', VInt 3)]]" "[(''fanState'', VInt 0)]"]
  by (simp add: payload_def new_dict_def)

theorem get_mode_out_of_domain_value_error_witness:
  "fst (get_mode (reply_with [(''fanSpeed'', VInt 2), (''fanMode'', VInt 0)]) demo_world)
     = Inl (ValueError ''0 is not a valid FanMode'')"
  using get_mode_out_of_domain_value_error [of "reply_with [(''fanSpeed'', VInt 2), (''fanMode'', VInt 0)]"
      demo_world "[(''fanSpeed'', VInt 2), (''fanMode'', VInt 0)]" 1 0]
  by (simp add: reply_with_def demo_world_def repr_int_def show_nat.simps digit_char_def)

theorem builder_never_holds_power_key_witness:
  "dict_keys (calls [CallReverse WINTER, CallSpeed 9, CallSpeed 2] \<lparr>payload_ref = 0\<rparr>
       [[(''fanSpeed'', VInt 5), (''fanMode'', VInt 2)]] ! 0) \<subseteq> {''fanSpeed'', ''fanMode'', ''fanRevrs''}
   \<and> ''fanState'' \<notin> dict_keys (calls [CallReverse WINTER, CallSpeed 9, CallSpeed 2] \<lparr>payload_ref = 0\<rparr>
       [[(''fanSpeed'', VInt 5), (''fanMode'', VInt 2)]] ! 0)
   \<and> ''fanState'' \<notin> dict_keys [(''fanSpeed'', VInt 4)]"
  using builder_never_holds_power_key [of "Some 5" "Some BREEZE" None "[]" "\<lparr>payload_ref = 0\<rparr>"
      "[[(''fanSpeed'', VInt 5), (''fanMode'', VInt 2)]]"
      "[CallReverse WINTER, CallSpeed 9, CallSpeed 2]" demo_world
      "reply_with [(''result'', VStr ''ok'')]" 4 NORMAL SUMMER]
  by (simp add: FanPilotBuilder_init_def new_dict_def speed_def mode_def store_setitem_def dict_set_def
       dict_keys_def)

subsection \<open>The message of a rejection can be read back\<close>

text \<open>
  Each \<^verbatim>\<open>repr\<close> is self-delimiting: from a text that starts with the \<^verbatim>\<open>repr\<close> of a
  value, the value and the rest of the text are determined.
\<close>

lemma digit_char_inj:
  assumes "d < 16" "e < 16" "digit_char d = digit_char e"
  shows "d = e"
proof -
  have "distinct ''0123456789abcdef''" by simp
  moreover have "d < length ''0123456789abcdef''" "e < length ''0123456789abcdef''"
    using assms by simp_all
  ultimately have "(''0123456789abcdef'' ! d = ''0123456789abcdef'' ! e) = (d = e)"
    by (rule nth_eq_iff_index_eq)
  with assms(3) show ?thesis
    by (simp add: digit_char_def)
qed

lemma of_char_hex:
  fixes c c' :: char
  assumes "digit_char (of_char c div 16) = digit_char (of_char c' div 16)"
      and "digit_char (of_char c mod 16) = digit_char (of_char c' mod 16)"
  shows "c = c'"
proof -
  have b: "(of_char c :: nat) < 256" "(of_char c' :: nat) < 256"
    by (metis of_char_mod_256 mod_less_divisor zero_less_numeral)+
  then have "(of_char c :: nat) div 16 < 16" "(of_char c' :: nat) div 16 < 16"
    by (simp_all add: less_mult_imp_div_less)
  with assms(1) have d: "(of_char c :: nat) div 16 = of_char c' div 16"
    by (rule_tac digit_char_inj) simp_all
  have "(of_char c :: nat) mod 16 = of_char c' mod 16"
    using assms(2) by (rule_tac digit_char_inj) simp_all
  with d have "(of_char c :: nat) = of_char c'"
    by (metis div_mult_mod_eq)
  then show ?thesis by simp
qed

lemma repr_char_not_Nil: "repr_char q c \<noteq> []"
  by (simp add: repr_char_def)

lemma hd_repr_char: "q \<noteq> backslash \<Longrightarrow> hd (repr_char q c) \<noteq> q"
  by (auto simp: repr_char_def)

lemma repr_char_prefix_free:
  assumes "q = squote \<or> q = dquote"
      and "repr_char q c @ X = repr_char q c' @ X'"
  shows "c = c' \<and> X = X'"
  using assms
  by (auto simp: repr_char_def squote_def dquote_def backslash_def
      dest: of_char_hex split: if_splits)

lemma repr_body_prefix_free:
  assumes q: "q = squote \<or> q = dquote"
  shows "concat (map (repr_char q) s) @ q # t = concat (map (repr_char q) s') @ q # t'
         \<Longrightarrow> s = s' \<and> t = t'"
proof (induction s arbitrary: s')
  case Nil
  show ?case
  proof (cases s')
    case Nil
    with Nil.prems show ?thesis by simp
  next
    case (Cons c' r')
    have "q \<noteq> backslash" using q by (auto simp: squote_def dquote_def backslash_def)
    then have "hd (repr_char q c') \<noteq> q" by (rule hd_repr_char)
    moreover have "hd (repr_char q c' @ concat (map (repr_char q) r') @ q # t') = q"
      using Nil.prems Cons by (metis append.assoc append_Nil concat.simps(1,2) list.map(1,2) list.sel(1))
    ultimately show ?thesis
      by (simp add: repr_char_not_Nil)
  qed
next
  case (Cons c r)
  show ?case
  proof (cases s')
    case Nil
    have "q \<noteq> backslash" using q by (auto simp: squote_def dquote_def backslash_def)
    then have "hd (repr_char q c) \<noteq> q" by (rule hd_repr_char)
    moreover have "hd (repr_char q c @ concat (map (repr_char q) r) @ q # t) = q"
      using Cons.prems Nil by simp
    ultimately show ?thesis
      by (simp add: repr_char_not_Nil)
  next
    case (Cons c' r')
    with Cons.prems have
      "repr_char q c @ (concat (map (repr_char q) r) @ q # t)
        = repr_char q c' @ (concat (map (repr_char q) r') @ q # t')"
      by simp
    with q have "c = c' \<and> concat (map (repr_char q) r) @ q # t = concat (map (repr_char q) r') @ q # t'"
      by (rule repr_char_prefix_free)
    with Cons.IH [of r'] Cons show ?thesis by simp
  qed
qed

lemma repr_quote_cases: "repr_quote s = squote \<or> repr_quote s = dquote"
  by (simp add: repr_quote_def)

lemma repr_str_prefix_free:
  assumes "repr_str s @ t = repr_str s' @ t'"
  shows "s = s' \<and> t = t'"
proof -
  from assms have q: "repr_quote s' = repr_quote s"
    by (simp add: repr_str_def Let_def)
  with assms have "concat (map (repr_char (repr_quote s)) s) @ repr_quote s # t
      = concat (map (repr_char (repr_quote s)) s') @ repr_quote s # t'"
    by (simp add: repr_str_def Let_def)
  with repr_quote_cases [of s] show ?thesis
    by (rule repr_body_prefix_free)
qed

lemma hd_repr_str: "repr_str s \<noteq> [] \<and> (hd (repr_str s) = squote \<or> hd (repr_str s) = dquote)"
  using repr_quote_cases [of s] by (simp add: repr_str_def Let_def)

lemma digit_char_digit: "d < 10 \<Longrightarrow> digit_char d \<in> set ''0123456789''"
proof -
  assume "d < 10"
  then have "''0123456789abcdef'' ! d = ''0123456789'' ! d"
    using nth_append [of "''0123456789''" "''abcdef''" d] by simp
  moreover have "''0123456789'' ! d \<in> set ''0123456789''"
    using \<open>d < 10\<close> by (intro nth_mem) simp
  ultimately show ?thesis
    by (simp only: digit_char_def)
qed

lemma show_nat_digits: "show_nat n \<noteq> [] \<and> set (show_nat n) \<subseteq> set ''0123456789''"
proof (induction n rule: show_nat.induct)
  case (1 n)
  show ?case
  proof (cases "n < 10")
    case True
    then show ?thesis
      using digit_char_digit [of n] by (subst (1 2) show_nat.simps) simp
  next
    case False
    have "n mod 10 < 10" by simp
    then have "digit_char (n mod 10) \<in> set ''0123456789''" by (rule digit_char_digit)
    with False "1" show ?thesis
      by (subst (1 2) show_nat.simps) simp
  qed
qed

lemma show_nat_inj: "show_nat n = show_nat m \<Longrightarrow> n = m"
proof (induction n arbitrary: m rule: show_nat.induct)
  case (1 n)
  have ne: "\<And>k. show_nat k \<noteq> []" using show_nat_digits by blast
  show ?case
  proof (cases "n < 10")
    case n: True
    show ?thesis
    proof (cases "m < 10")
      case True
      with n "1.prems" have "digit_char n = digit_char m"
        by (simp add: show_nat.simps [of n] show_nat.simps [of m])
      with n True show ?thesis by (intro digit_char_inj) simp_all
    next
      case False
      with n "1.prems" ne [of "m div 10"] show ?thesis
        by (simp add: show_nat.simps [of n] show_nat.simps [of m] Cons_eq_append_conv)
    qed
  next
    case n: False
    show ?thesis
    proof (cases "m < 10")
      case True
      with n "1.prems" ne [of "n div 10"] show ?thesis
        by (simp add: show_nat.simps [of n] show_nat.simps [of m] append_eq_Cons_conv)
    next
      case False
      with n "1.prems" have e: "show_nat (n div 10) = show_nat (m div 10)"
        and d: "digit_char (n mod 10) = digit_char (m mod 10)"
        by (simp_all add: show_nat.simps [of n] show_nat.simps [of m])
      from e have "n div 10 = m div 10" using "1.IH" n by simp
      moreover from d have "n mod 10 = m mod 10" by (intro digit_char_inj) simp_all
      ultimately show ?thesis by (metis div_mult_mod_eq)
    qed
  qed
qed

lemma takeWhile_digits:
  assumes "set ds \<subseteq> set ''0123456789''" and "no_digit_ahead t"
  shows "takeWhile (\<lambda>c. c \<in> set ''0123456789'') (ds @ t) = ds"
proof -
  have "takeWhile (\<lambda>c. c \<in> set ''0123456789'') t = []"
    using assms(2) by (cases t) (simp_all add: no_digit_ahead_def)
  moreover have "takeWhile (\<lambda>c. c \<in> set ''0123456789'') (ds @ t)
      = ds @ takeWhile (\<lambda>c. c \<in> set ''0123456789'') t"
    using assms(1) by (intro takeWhile_append2) blast
  ultimately show ?thesis by simp
qed

lemma show_nat_prefix_free:
  assumes "show_nat n @ t = show_nat m @ t'" and "no_digit_ahead t" and "no_digit_ahead t'"
  shows "n = m \<and> t = t'"
proof -
  have "show_nat n = takeWhile (\<lambda>c. c \<in> set ''0123456789'') (show_nat n @ t)"
    using show_nat_digits assms(2) by (simp only: takeWhile_digits)
  also have "\<dots> = show_nat m"
    using show_nat_digits assms(3) by (simp only: assms(1) takeWhile_digits)
  finally have "show_nat n = show_nat m" .
  with assms(1) show ?thesis
    by (simp add: show_nat_inj)
qed

lemma hd_show_nat: "hd (show_nat n) \<in> set ''0123456789''"
proof -
  have "show_nat n \<noteq> []" and sub: "set (show_nat n) \<subseteq> set ''0123456789''"
    using show_nat_digits [of n] by blast+
  then have "hd (show_nat n) \<in> set (show_nat n)"
    by (intro hd_in_set)
  with sub show ?thesis by (rule subsetD)
qed

lemma repr_int_prefix_free:
  assumes "repr_int i @ t = repr_int j @ t'" and "no_digit_ahead t" and "no_digit_ahead t'"
  shows "i = j \<and> t = t'"
proof -
  have ne: "\<And>k. show_nat k \<noteq> []" using show_nat_digits by blast
  have dash: "CHR ''-'' \<notin> set ''0123456789''" by simp
  have minus: "\<And>k u. CHR ''-'' # u \<noteq> show_nat k @ t'" "\<And>k u. show_nat k @ t \<noteq> CHR ''-'' # u"
  proof -
    fix k u
    obtain c cs where c: "show_nat k = c # cs" using ne [of k] by (cases "show_nat k") blast+
    with hd_show_nat [of k] have "c \<in> set ''0123456789''" by (simp only: list.sel)
    with dash have "c \<noteq> CHR ''-''" by blast
    then show "CHR ''-'' # u \<noteq> show_nat k @ t'" "show_nat k @ t \<noteq> CHR ''-'' # u"
      by (simp_all only: c append_Cons list.inject) blast+
  qed
  consider "i < 0" "j < 0" | "i < 0" "\<not> j < 0" | "\<not> i < 0" "j < 0" | "\<not> i < 0" "\<not> j < 0"
    by blast
  then show ?thesis
  proof cases
    case 1
    with assms have "nat (- i) = nat (- j) \<and> t = t'"
      by (intro show_nat_prefix_free) (simp_all add: repr_int_def)
    with 1 show ?thesis by auto
  next
    case 2
    with assms(1) minus show ?thesis by (simp add: repr_int_def)
  next
    case 3
    with assms(1) minus show ?thesis by (simp add: repr_int_def)
  next
    case 4
    with assms have "nat i = nat j \<and> t = t'"
      by (intro show_nat_prefix_free) (simp_all add: repr_int_def)
    with 4 show ?thesis by auto
  qed
qed

lemma hd_repr_int: "repr_int i \<noteq> [] \<and> hd (repr_int i) \<in> set ''-0123456789''"
proof (cases "i < 0")
  case True
  then show ?thesis by (simp add: repr_int_def)
next
  case False
  have "set ''0123456789'' \<subseteq> set ''-0123456789''" by (simp only: list.set) blast
  with hd_show_nat [of "nat i"] have "hd (show_nat (nat i)) \<in> set ''-0123456789''"
    by (rule rev_subsetD)
  moreover have "show_nat (nat i) \<noteq> []" using show_nat_digits by blast
  ultimately show ?thesis using False by (simp only: repr_int_def if_False) blast
qed

lemma join_Cons: "join sep (x # xs) = x @ (if xs = [] then [] else sep @ join sep xs)"
  by (cases xs) simp_all

text \<open>Items printed by \<open>f\<close>, separated by a comma and a space and closed by \<open>cl\<close>.\<close>

lemma join_prefix_free:
  assumes item: "\<And>x y t t'. x \<in> set xs \<Longrightarrow> no_digit_ahead t \<Longrightarrow> no_digit_ahead t' \<Longrightarrow>
                   f x @ t = f y @ t' \<Longrightarrow> x = y \<and> t = t'"
      and first: "\<And>y. f y \<noteq> [] \<and> hd (f y) \<noteq> cl"
      and cl: "cl \<notin> set '',0123456789''"
      and eq: "join '', '' (map f xs) @ cl # s = join '', '' (map f ys) @ cl # s'"
  shows "xs = ys \<and> s = s'"
  using item eq
proof (induction xs arbitrary: ys)
  case Nil
  show ?case
  proof (cases ys)
    case Nil
    with Nil.prems show ?thesis by simp
  next
    case (Cons y ys')
    with Nil.prems(2) have "cl # s = f y @ (if ys' = [] then [] else '', '' @ join '', '' (map f ys')) @ cl # s'"
      by (simp add: join_Cons)
    then have "hd (f y @ (if ys' = [] then [] else '', '' @ join '', '' (map f ys')) @ cl # s') = cl"
      by (metis list.sel(1))
    with first [of y] show ?thesis by (cases "f y") simp_all
  qed
next
  case (Cons x xs')
  show ?case
  proof (cases ys)
    case Nil
    with Cons.prems(2) have "f x @ (if xs' = [] then [] else '', '' @ join '', '' (map f xs')) @ cl # s = cl # s'"
      by (simp add: join_Cons)
    then have "hd (f x @ (if xs' = [] then [] else '', '' @ join '', '' (map f xs')) @ cl # s) = cl"
      by (metis list.sel(1))
    with first [of x] show ?thesis by (cases "f x") simp_all
  next
    case ys: (Cons y ys')
    define T where "T = (if xs' = [] then [] else '', '' @ join '', '' (map f xs')) @ cl # s"
    define T' where "T' = (if ys' = [] then [] else '', '' @ join '', '' (map f ys')) @ cl # s'"
    have nd: "no_digit_ahead T" "no_digit_ahead T'"
      using cl by (auto simp: T_def T'_def no_digit_ahead_def)
    have "f x @ T = f y @ T'"
      using Cons.prems(2) ys by (simp add: join_Cons T_def T'_def)
    with nd have xy: "x = y \<and> T = T'"
      by (intro Cons.prems(1)) simp_all
    have "xs' = ys' \<and> s = s'"
    proof (cases "xs' = []")
      case True
      show ?thesis
      proof (cases "ys' = []")
        case True
        with \<open>xs' = []\<close> xy show ?thesis by (simp add: T_def T'_def)
      next
        case False
        with \<open>xs' = []\<close> xy cl show ?thesis by (simp add: T_def T'_def)
      qed
    next
      case False
      show ?thesis
      proof (cases "ys' = []")
        case True
        with \<open>xs' \<noteq> []\<close> xy cl show ?thesis by (simp add: T_def T'_def)
      next
        case ne: False
        with False xy have "join '', '' (map f xs') @ cl # s = join '', '' (map f ys') @ cl # s'"
          by (simp add: T_def T'_def)
        then show ?thesis
          by (intro Cons.IH Cons.prems(1)) simp_all
      qed
    qed
    with xy ys show ?thesis by simp
  qed
qed

lemma hd_py_repr:
  "py_repr v \<noteq> [] \<and>
   (case v of
      VNone \<Rightarrow> hd (py_repr v) = CHR ''N''
    | VBool b \<Rightarrow> hd (py_repr v) = (if b then CHR ''T'' else CHR ''F'')
    | VInt i \<Rightarrow> hd (py_repr v) \<in> set ''-0123456789''
    | VStr s \<Rightarrow> hd (py_repr v) = squote \<or> hd (py_repr v) = dquote
    | VList xs \<Rightarrow> hd (py_repr v) = CHR ''[''
    | VDict d \<Rightarrow> hd (py_repr v) = CHR ''{'')"
  using hd_repr_int hd_repr_str by (cases v) simp_all

lemma same_constructor:
  assumes "py_repr v @ t = py_repr v' @ t'"
  shows "case (v, v') of
      (VNone, VNone) \<Rightarrow> True
    | (VBool b, VBool b') \<Rightarrow> b = b'
    | (VInt _, VInt _) \<Rightarrow> True
    | (VStr _, VStr _) \<Rightarrow> True
    | (VList _, VList _) \<Rightarrow> True
    | (VDict _, VDict _) \<Rightarrow> True
    | _ \<Rightarrow> False"
proof -
  have "hd (py_repr v @ t) = hd (py_repr v)" "hd (py_repr v' @ t') = hd (py_repr v')"
    using hd_py_repr [of v] hd_py_repr [of v'] by simp_all
  with assms have h: "hd (py_repr v) = hd (py_repr v')" by simp
  show ?thesis
    using h hd_py_repr [of v] hd_py_repr [of v']
    by (cases v; cases v') (auto simp: squote_def dquote_def split: if_splits)
qed

lemma py_repr_prefix_free:
  "no_digit_ahead t \<Longrightarrow> no_digit_ahead t' \<Longrightarrow> py_repr v @ t = py_repr v' @ t'
   \<Longrightarrow> v = v' \<and> t = t'"
proof (induction v arbitrary: v' t t')
  case VNone
  from same_constructor [OF VNone.prems(3)] have "v' = VNone"
    by (cases v') simp_all
  with VNone.prems(3) show ?case by simp
next
  case (VBool b)
  from same_constructor [OF VBool.prems(3)] have "v' = VBool b"
    by (cases v') simp_all
  with VBool.prems(3) show ?case by simp
next
  case (VInt i)
  from same_constructor [OF VInt.prems(3)] obtain j where j: "v' = VInt j"
    by (cases v') simp_all
  with VInt.prems have "i = j \<and> t = t'"
    by (intro repr_int_prefix_free) simp_all
  with j show ?case by simp
next
  case (VStr s)
  from same_constructor [OF VStr.prems(3)] obtain s' where s': "v' = VStr s'"
    by (cases v') simp_all
  with VStr.prems(3) have "s = s' \<and> t = t'"
    by (intro repr_str_prefix_free) simp
  with s' show ?case by simp
next
  case (VList xs)
  from same_constructor [OF VList.prems(3)] obtain ys where ys: "v' = VList ys"
    by (cases v') simp_all
  have "xs = ys \<and> t = t'"
  proof (rule join_prefix_free [where f = py_repr and cl = "CHR '']''"])
    fix x y u u'
    assume "x \<in> set xs" "no_digit_ahead u" "no_digit_ahead u'" "py_repr x @ u = py_repr y @ u'"
    then show "x = y \<and> u = u'" by (rule VList.IH)
  next
    fix y
    show "py_repr y \<noteq> [] \<and> hd (py_repr y) \<noteq> CHR '']''"
      using hd_py_repr [of y] by (cases y) (auto simp: squote_def dquote_def)
  next
    show "CHR '']'' \<notin> set '',0123456789''" by simp
  next
    show "join '', '' (map py_repr xs) @ CHR '']'' # t = join '', '' (map py_repr ys) @ CHR '']'' # t'"
      using VList.prems(3) ys by simp
  qed
  with ys show ?case by simp
next
  case (VDict d)
  from same_constructor [OF VDict.prems(3)] obtain e where e: "v' = VDict e"
    by (cases v') simp_all
  let ?f = "\<lambda>(k, v). repr_str k @ '': '' @ py_repr v"
  have "d = e \<and> t = t'"
  proof (rule join_prefix_free [where f = ?f and cl = "CHR ''}''"])
    fix x y u u'
    assume x: "x \<in> set d" and nd: "no_digit_ahead u" "no_digit_ahead u'"
      and eq: "?f x @ u = ?f y @ u'"
    obtain k w where kw: "x = (k, w)" by (cases x)
    obtain k' w' where kw': "y = (k', w')" by (cases y)
    from eq kw kw' have "repr_str k @ ('': '' @ py_repr w @ u) = repr_str k' @ ('': '' @ py_repr w' @ u')"
      by simp
    then have k: "k = k'" and r: "py_repr w @ u = py_repr w' @ u'"
      by (auto dest: repr_str_prefix_free)
    from x kw have "w \<in> Basic_BNFs.snds x" by simp
    with x nd r have "w = w' \<and> u = u'"
      by (intro VDict.IH)
    with k kw kw' show "x = y \<and> u = u'" by simp
  next
    fix y :: "string \<times> pyval"
    obtain k w where kw: "y = (k, w)" by (cases y)
    show "?f y \<noteq> [] \<and> hd (?f y) \<noteq> CHR ''}''"
      using hd_repr_str [of k] by (auto simp: kw squote_def dquote_def)
  next
    show "CHR ''}'' \<notin> set '',0123456789''" by simp
  next
    show "join '', '' (map ?f d) @ CHR ''}'' # t = join '', '' (map ?f e) @ CHR ''}'' # t'"
      using VDict.prems(3) e by simp
  qed
  with e show ?case by simp
qed

lemma protocol_message_inj:
  assumes "protocol_message p r = protocol_message p' r'"
  shows "p = p' \<and> r = r'"
proof -
  let ?t = "\<lambda>r. '': '' @ py_repr (VDict r) @ '' (error='' @ py_str (error_code r) @ '')''"
  let ?u = "\<lambda>r. '' (error='' @ py_str (error_code r) @ '')''"
  from assms have "py_repr (VDict p) @ ?t r = py_repr (VDict p') @ ?t r'"
    by (simp add: protocol_message_def)
  moreover have "no_digit_ahead (?t r)" "no_digit_ahead (?t r')"
    by (simp_all add: no_digit_ahead_def)
  ultimately have 1: "VDict p = VDict p' \<and> ?t r = ?t r'"
    by (intro py_repr_prefix_free)
  then have "py_repr (VDict r) @ ?u r = py_repr (VDict r') @ ?u r'"
    by simp
  moreover have "no_digit_ahead (?u r)" "no_digit_ahead (?u r')"
    by (simp_all add: no_digit_ahead_def)
  ultimately have "VDict r = VDict r' \<and> ?u r = ?u r'"
    by (intro py_repr_prefix_free)
  with 1 show ?thesis by simp
qed

text \<open>The message for a rejected speed command, as Python prints it.\<close>

lemma protocol_message_example:
  "protocol_message [(''fanSpeed'', VInt 3)] [(''result'', VStr ''error''), (''error'', VStr ''invalid'')]
   = ''Unexpected response to setPilot {'fanSpeed': 3}: {'result': 'error', 'error': 'invalid'} (error=invalid)''"
  by code_simp

text \<open>
  C3, as stated, fails: the error code is not always the explicit \<^verbatim>\<open>error\<close> field when
  there is one. In the reply \<^verbatim>\<open>{"error": 0, "result": "busy"}\<close> the field is present with
  the value 0, and the error code extracted is \<^verbatim>\<open>busy\<close>, the value of the \<^verbatim>\<open>result\<close>
  field, as the message raised shows.
\<close>

theorem error_field_first_counterexample:
  "map_of [(''error'', VInt 0), (''result'', VStr ''busy'')] ''error'' = Some (VInt 0)
   \<and> error_code [(''error'', VInt 0), (''result'', VStr ''busy'')] = VStr ''busy''
   \<and> error_code [(''error'', VInt 0), (''result'', VStr ''busy'')] \<noteq> VInt 0
   \<and> validate_response [(''error'', VInt 0), (''result'', VStr ''busy'')] [(''fanSpeed'', VInt 3)]
      = Inl (WizLightProtocolError
          ''Unexpected response to setPilot {'fanSpeed': 3}: {'error': 0, 'result': 'busy'} (error=busy)'')"
  by code_simp

text \<open>
  C3, amended. A reply is accepted exactly when its \<^verbatim>\<open>result\<close> is the string \<^verbatim>\<open>ok\<close>;
  every other reply raises \<^verbatim>\<open>WizLightProtocolError\<close>. The error code is the \<^verbatim>\<open>error\<close>
  field when that field is present and true; when the field is missing, or present with a
  false value (\<^verbatim>\<open>None\<close>, \<^verbatim>\<open>False\<close>, 0, an empty string, list or dict), it is the value
  of the \<^verbatim>\<open>result\<close> field. The message ends with the error code. The exception determines
  the payload sent, the whole reply and the error code: two rejections with the same
  exception have the same three. For the reply \<^verbatim>\<open>{"result": "error", "error": "invalid"}\<close>
  the error code is \<^verbatim>\<open>invalid\<close>.
\<close>

theorem validate_response_contract:
  "(validate_response r p = Inr ()) = (dict_get r ''result'' = VStr ''ok'')
   \<and> (dict_get r ''result'' \<noteq> VStr ''ok'' \<longrightarrow>
        validate_response r p = Inl (WizLightProtocolError (protocol_message p r)))
   \<and> (\<forall>v. map_of r ''error'' = Some v \<and> truthy v \<longrightarrow> error_code r = v)
   \<and> (map_of r ''error'' = None \<or> (\<exists>v. map_of r ''error'' = Some v \<and> \<not> truthy v) \<longrightarrow>
        error_code r = dict_get r ''result'')
   \<and> (\<exists>pre. protocol_message p r = pre @ '' (error='' @ py_str (error_code r) @ '')'')
   \<and> (validate_response r p = Inl e \<and> validate_response r' p' = Inl e \<longrightarrow>
        p' = p \<and> r' = r \<and> error_code r' = error_code r)
   \<and> error_code [(''result'', VStr ''error''), (''error'', VStr ''invalid'')] = VStr ''invalid''"
proof (intro conjI impI allI)
  show "(validate_response r p = Inr ()) = (dict_get r ''result'' = VStr ''ok'')"
    by (simp add: validate_response_def)
  show "validate_response r p = Inl (WizLightProtocolError (protocol_message p r))"
    if "dict_get r ''result'' \<noteq> VStr ''ok''"
    using that by (simp add: validate_response_def)
  show "error_code r = v" if "map_of r ''error'' = Some v \<and> truthy v" for v
    using that by (simp add: error_code_def py_or_def dict_get_def)
  show "error_code r = dict_get r ''result''"
    if "map_of r ''error'' = None \<or> (\<exists>v. map_of r ''error'' = Some v \<and> \<not> truthy v)"
    using that by (auto simp: error_code_def py_or_def dict_get_def)
  show "\<exists>pre. protocol_message p r = pre @ '' (error='' @ py_str (error_code r) @ '')''"
    by (rule exI [of _ "''Unexpected response to setPilot '' @ py_repr (VDict p) @ '': ''
          @ py_repr (VDict r)"]) (simp add: protocol_message_def)
  assume a: "validate_response r p = Inl e \<and> validate_response r' p' = Inl e"
  then have "protocol_message p' r' = protocol_message p r"
    by (auto simp: validate_response_def split: if_splits)
  then have "p' = p \<and> r' = r"
    by (rule protocol_message_inj)
  then show "p' = p" "r' = r" "error_code r' = error_code r"
    by simp_all
next
  show "error_code [(''result'', VStr ''error''), (''error'', VStr ''invalid'')] = VStr ''invalid''"
    by (simp add: error_code_def py_or_def dict_get_def)
qed

theorem validate_response_contract_witness:
  "validate_response [(''result'', VStr ''ok'')] [(''fanSpeed'', VInt 3)] = Inr ()
   \<and> validate_response [(''result'', VStr ''error''), (''error'', VStr ''invalid'')] [(''fanSpeed'', VInt 3)]
      = Inl (WizLightProtocolError
          ''Unexpected response to setPilot {'fanSpeed': 3}: {'result': 'error', 'error': 'invalid'} (error=invalid)'')
   \<and> error_code [(''result'', VStr ''error''), (''error'', VStr ''invalid'')] = VStr ''invalid''
   \<and> error_code [(''error'', VInt 0), (''result'', VStr ''busy'')] = VStr ''busy''"
  using validate_response_contract [of "[(''result'', VStr ''ok'')]" "[(''fanSpeed'', VInt 3)]"]
    validate_response_contract [of "[(''result'', VStr ''error''), (''error'', VStr ''invalid'')]"
      "[(''fanSpeed'', VInt 3)]"
      "WizLightProtocolError (protocol_message [(''fanSpeed'', VInt 3)]
               [(''result'', VStr ''error''), (''error'', VStr ''invalid'')])"
      "[(''result'', VStr ''error''), (''error'', VStr ''invalid'')]" "[(''fanSpeed'', VInt 3)]"]
    validate_response_contract [of "[(''error'', VInt 0), (''result'', VStr ''busy'')]"]
  by (simp add: dict_get_def protocol_message_example)

end
